theory Spec2Isabelle
  imports Complex_Main "HOL-Library.Word" "HOL-Library.Sublist"
begin

section \<open>JavaScript values\<close>

text \<open>
  A JavaScript string is a sequence of UTF-16 code units; \<^verbatim>\<open>length\<close> counts them and
  \<^verbatim>\<open>trim\<close> is defined on them. String literals of the source are ASCII and are written
  through \<open>ascii\<close>.
\<close>

type_synonym jsstring = "16 word list"

definition ascii :: "string \<Rightarrow> jsstring" where
  "ascii s = map (\<lambda>c. of_char c) s"

text \<open>
  Values as \<^verbatim>\<open>JSON.parse\<close> and property reads produce them. A number is the value of
  the double, a rational (JSON has neither NaN nor infinities). An object is the list of its
  own properties in insertion order, with pairwise distinct keys.
\<close>

datatype jsval =
    JUndefined
  | JNull
  | JBool bool
  | JNum rat
  | JStr jsstring
  | JArr "jsval list"
  | JObj "(jsstring \<times> jsval) list"

text \<open>An exception carries its \<^verbatim>\<open>message\<close>.\<close>

datatype js_error = JsError (message: jsstring)

text \<open>Truthiness, as \<^verbatim>\<open>!x\<close> and \<^verbatim>\<open>x ? a : b\<close> decide it.\<close>

fun truthy :: "jsval \<Rightarrow> bool" where
  "truthy JUndefined = False"
| "truthy JNull = False"
| "truthy (JBool b) = b"
| "truthy (JNum q) = (q \<noteq> 0)"
| "truthy (JStr s) = (s \<noteq> [])"
| "truthy (JArr xs) = True"
| "truthy (JObj kvs) = True"

text \<open>Decimal rendering of a non-negative integer, as a template literal prints it.\<close>

definition digit :: "nat \<Rightarrow> 16 word" where
  "digit d = of_nat (48 + d)"

function dec :: "nat \<Rightarrow> jsstring" where
  "dec n = (if n < 10 then [digit n] else dec (n div 10) @ [digit (n mod 10)])"
  by pat_completeness auto
termination
  by (relation "measure (\<lambda>n. n)") auto

text \<open>
  The TypeError of a property read on \<^verbatim>\<open>undefined\<close> or \<^verbatim>\<open>null\<close>, in the wording of
  V8 (Node.js) for a member read. The handlers only test whether a message contains
  \<^verbatim>\<open>fetch\<close> and copy it into the reply.
\<close>

definition type_error :: "jsval \<Rightarrow> jsstring \<Rightarrow> js_error" where
  "type_error v k = JsError (ascii ''Cannot read properties of ''
     @ (if v = JNull then ascii ''null'' else ascii ''undefined'')
     @ ascii '' (reading '' @ [0x27] @ k @ [0x27] @ ascii '')'')"

text \<open>
  \<^verbatim>\<open>v[k]\<close> and \<^verbatim>\<open>v.k\<close> for a property name \<open>k\<close>. The names this program reads
  (\<^verbatim>\<open>text\<close>, \<^verbatim>\<open>results\<close>, \<^verbatim>\<open>categories\<close>, \<^verbatim>\<open>flagged\<close> and the seven category keys)
  are no built-in property of any prototype, so a read on anything but an object with that
  own property gives \<^verbatim>\<open>undefined\<close>, and a read on \<^verbatim>\<open>undefined\<close> or \<^verbatim>\<open>null\<close> throws.
\<close>

definition own_value :: "(jsstring \<times> jsval) list \<Rightarrow> jsstring \<Rightarrow> jsval" where
  "own_value kvs k = (case map_of kvs k of None \<Rightarrow> JUndefined | Some v \<Rightarrow> v)"

fun js_member :: "jsval \<Rightarrow> jsstring \<Rightarrow> js_error + jsval" where
  "js_member JUndefined k = Inl (type_error JUndefined k)"
| "js_member JNull k = Inl (type_error JNull k)"
| "js_member (JObj kvs) k = Inr (own_value kvs k)"
| "js_member v k = Inr JUndefined"

text \<open>\<^verbatim>\<open>v[i]\<close> for an index \<open>i\<close>.\<close>

fun js_index :: "jsval \<Rightarrow> nat \<Rightarrow> js_error + jsval" where
  "js_index JUndefined i = Inl (type_error JUndefined (dec i))"
| "js_index JNull i = Inl (type_error JNull (dec i))"
| "js_index (JArr xs) i = Inr (if i < length xs then xs ! i else JUndefined)"
| "js_index (JStr s) i = Inr (if i < length s then JStr [s ! i] else JUndefined)"
| "js_index (JObj kvs) i = js_member (JObj kvs) (dec i)"
| "js_index v i = Inr JUndefined"

section \<open>Numbers of the score aggregation\<close>

text \<open>
  The aggregation works on small integers (scores 5 and 85, at most seven of them), which
  doubles hold exactly. The one division, \<^verbatim>\<open>total / count\<close>, is modelled by the exact
  quotient: for \<open>count \<le> 7\<close> the quotient is either exactly a half-integer (and then a
  double) or at least \<open>1/14\<close> away from one, so the rounding of the double division never
  changes what \<^verbatim>\<open>Math.round\<close> returns. Division by zero is written out: \<^verbatim>\<open>0 / 0\<close> is
  NaN, \<^verbatim>\<open>x / 0\<close> an infinity.
\<close>

datatype jsnum = NaN | PosInf | NegInf | Fin rat

definition js_div :: "int \<Rightarrow> int \<Rightarrow> jsnum" where
  "js_div a b =
     (if b = 0 then (if a = 0 then NaN else if 0 < a then PosInf else NegInf)
      else Fin (of_int a / of_int b))"

text \<open>\<^verbatim>\<open>Math.round\<close>: the nearest integer, a tie going up.\<close>

fun Math_round :: "jsnum \<Rightarrow> jsnum" where
  "Math_round (Fin q) = Fin (of_int (round q))"
| "Math_round x = x"

fun Math_min :: "rat \<Rightarrow> jsnum \<Rightarrow> jsnum" where
  "Math_min a NaN = NaN"
| "Math_min a PosInf = Fin a"
| "Math_min a NegInf = NegInf"
| "Math_min a (Fin q) = Fin (min a q)"

text \<open>\<^verbatim>\<open>x < c\<close> for a finite constant \<open>c\<close>; every comparison with NaN is false.\<close>

fun js_less :: "jsnum \<Rightarrow> rat \<Rightarrow> bool" where
  "js_less NaN c = False"
| "js_less PosInf c = False"
| "js_less NegInf c = True"
| "js_less (Fin q) c = (q < c)"

section \<open>The score aggregator: processApiResponse\<close>

record category_score =
  name :: jsstring
  score :: int
  raw :: rat

record analysis_summary =
  overall :: jsnum
  categories :: "category_score list"

text \<open>
  \<^verbatim>\<open>categoryMap\<close>: \<^verbatim>\<open>for (const key in categoryMap)\<close> visits its keys in this order, the
  order they are written in.
\<close>

definition categoryMap :: "(jsstring \<times> jsstring) list" where
  "categoryMap =
     [(ascii ''hate'', ascii ''Hate''),
      (ascii ''harassment'', ascii ''Harassment''),
      (ascii ''self-harm'', ascii ''Self Harm''),
      (ascii ''sexual'', ascii ''Sexual Content''),
      (ascii ''violence'', ascii ''Violence''),
      (ascii ''hate/threatening'', ascii ''Hate / Threat''),
      (ascii ''harassment/threatening'', ascii ''Harassment / Threat'')]"

text \<open>
  The loop's variables: \<^verbatim>\<open>results.categories\<close>, \<^verbatim>\<open>total\<close> and \<^verbatim>\<open>count\<close>. An entry
  holds its label, its score and \<^verbatim>\<open>raw = score / 100\<close>, the exact quotient (\<open>1/20\<close> or
  \<open>17/20\<close>), of which the double is the nearest one, the one the literals \<^verbatim>\<open>0.05\<close>
  and \<^verbatim>\<open>0.85\<close> denote.
\<close>

record loop_state =
  pushed :: "category_score list"
  total :: int
  count :: int

definition category_entry :: "jsstring \<Rightarrow> jsval \<Rightarrow> category_score" where
  "category_entry label v =
     (let score = (if truthy v then 85 else 5)
      in \<lparr>name = label, score = score, raw = of_int score / 100\<rparr>)"

fun category_loop :: "(jsstring \<times> jsstring) list \<Rightarrow> jsval \<Rightarrow> loop_state \<Rightarrow> js_error + loop_state" where
  "category_loop [] cats st = Inr st"
| "category_loop ((key, label) # rest) cats st =
     (case js_member cats key of
        Inl e \<Rightarrow> Inl e
      | Inr v \<Rightarrow>
          if v \<noteq> JUndefined
          then category_loop rest cats
                 \<lparr>pushed = pushed st @ [category_entry label v],
                  total = total st + score (category_entry label v),
                  count = count st + 1\<rparr>
          else category_loop rest cats st)"

definition processApiResponse :: "jsval \<Rightarrow> js_error + analysis_summary" where
  "processApiResponse data =
     (case js_member data (ascii ''results'') of Inl e \<Rightarrow> Inl e | Inr results \<Rightarrow>
     (case js_index results 0 of Inl e \<Rightarrow> Inl e | Inr result \<Rightarrow>
     (case js_member result (ascii ''categories'') of Inl e \<Rightarrow> Inl e | Inr cats \<Rightarrow>
     (case js_member result (ascii ''flagged'') of Inl e \<Rightarrow> Inl e | Inr flagged \<Rightarrow>
     (case category_loop categoryMap cats \<lparr>pushed = [], total = 0, count = 0\<rparr> of
        Inl e \<Rightarrow> Inl e
      | Inr st \<Rightarrow>
          Inr \<lparr>overall =
                 (if truthy flagged
                  then Math_min 100 (Math_round (js_div (total st) (count st)))
                  else Math_round (js_div (total st) (count st))),
               categories = pushed st\<rparr>)))))"

text \<open>The class \<^verbatim>\<open>displayVerdict\<close> gives the overall score.\<close>

definition displayVerdict :: "jsnum \<Rightarrow> jsstring" where
  "displayVerdict overallScore =
     (if js_less overallScore 30 then ascii ''safe''
      else if js_less overallScore 70 then ascii ''warning''
      else ascii ''danger'')"

text \<open>The class \<^verbatim>\<open>createCategoryCard\<close> gives one category.\<close>

definition severityClass :: "category_score \<Rightarrow> jsstring" where
  "severityClass category =
     (if score category < 30 then ascii ''safe''
      else if score category < 70 then ascii ''warning''
      else ascii ''danger'')"

section \<open>The relay: POST /analyze\<close>

text \<open>
  \<^verbatim>\<open>String.prototype.trim\<close> removes the WhiteSpace and LineTerminator code points of
  ECMAScript from both ends.
\<close>

definition is_white_space :: "16 word \<Rightarrow> bool" where
  "is_white_space u =
     (u \<in> {0x09, 0x0A, 0x0B, 0x0C, 0x0D, 0x20, 0xA0, 0x1680, 0x2028, 0x2029, 0x202F,
            0x205F, 0x3000, 0xFEFF}
      \<or> (0x2000 \<le> u \<and> u \<le> 0x200A))"

definition trim :: "jsstring \<Rightarrow> jsstring" where
  "trim s = rev (dropWhile is_white_space (rev (dropWhile is_white_space s)))"

text \<open>\<^verbatim>\<open>s.includes(p)\<close>: \<open>p\<close> occurs in \<open>s\<close> as a contiguous run.\<close>

fun js_includes :: "jsstring \<Rightarrow> jsstring \<Rightarrow> bool" where
  "js_includes [] p = (p = [])"
| "js_includes (c # cs) p = (prefix p (c # cs) \<or> js_includes cs p)"

text \<open>
  The process environment: \<^verbatim>\<open>process.env.OPENAI_API_KEY\<close> is a string or
  \<^verbatim>\<open>undefined\<close>.
\<close>

record config =
  OPENAI_API_KEY :: "jsstring option"

definition env_value :: "jsstring option \<Rightarrow> jsval" where
  "env_value v = (case v of None \<Rightarrow> JUndefined | Some s \<Rightarrow> JStr s)"

text \<open>
  An outbound \<^verbatim>\<open>fetch\<close> call: the address and the options the handlers pass, which are
  \<^verbatim>\<open>method\<close> (here \<open>http_method\<close>), \<^verbatim>\<open>headers\<close> and \<^verbatim>\<open>body\<close> (here the value
  that \<^verbatim>\<open>JSON.stringify\<close> is given). They pass no \<^verbatim>\<open>signal\<close> and no timeout.
\<close>

record fetch_request =
  url :: jsstring
  http_method :: jsstring
  headers :: "(jsstring \<times> jsstring) list"
  body :: jsval

text \<open>
  What the handler reads of a response: \<^verbatim>\<open>status\<close>, and the outcome of
  \<^verbatim>\<open>await response.text()\<close> and of \<^verbatim>\<open>await response.json()\<close>, each of which may
  throw. \<^verbatim>\<open>response.ok\<close> is the status being in 200..299.
\<close>

record upstream_response =
  status :: nat
  text_body :: "js_error + jsstring"
  json_body :: "js_error + jsval"

definition ok :: "upstream_response \<Rightarrow> bool" where
  "ok response = (200 \<le> status response \<and> status response \<le> 299)"

text \<open>
  The promise \<^verbatim>\<open>fetch\<close> returns is fulfilled with a response, rejected with an error, or
  never settled (the server accepts the connection and sends nothing).
\<close>

datatype fetch_outcome = Fulfilled upstream_response | Rejected js_error | Pending

type_synonym upstream = "fetch_request \<Rightarrow> fetch_outcome"

text \<open>What the handler sends back: \<^verbatim>\<open>res.status(code).json(content)\<close>.\<close>

datatype reply_body =
    ErrorDetails jsstring jsstring
  | ErrorOnly jsstring
  | Data jsval

record reply =
  code :: nat
  content :: reply_body

text \<open>How a block of the handler ends: it has replied, it has thrown, or it awaits forever.\<close>

datatype completion = Replied reply | Threw js_error | Hung

text \<open>
  The call both handlers make. \<open>interpolate\<close> is what the template literal
  \<^verbatim>\<open>`Bearer ${OPENAI_API_KEY}`\<close> prints for the key.
\<close>

definition interpolate :: "jsstring option \<Rightarrow> jsstring" where
  "interpolate v = (case v of None \<Rightarrow> ascii ''undefined'' | Some s \<Rightarrow> s)"

definition moderation_call :: "jsstring option \<Rightarrow> jsstring \<Rightarrow> fetch_request" where
  "moderation_call key text =
     \<lparr>url = ascii ''https://api.openai.com/v1/moderations'',
      http_method = ascii ''POST'',
      headers = [(ascii ''Content-Type'', ascii ''application/json''),
                 (ascii ''Authorization'', ascii ''Bearer '' @ interpolate key)],
      body = JObj [(ascii ''model'', JStr (ascii ''omni-moderation-latest'')),
                   (ascii ''input'', JStr text)]\<rparr>"

text \<open>The block \<^verbatim>\<open>if (!response.ok) { ... }\<close> of server.js.\<close>

definition handle_api_errors :: "upstream_response \<Rightarrow> completion" where
  "handle_api_errors response =
     (case text_body response of
        Inl e \<Rightarrow> Threw e
      | Inr errorText \<Rightarrow>
          if status response = 401 then
            Replied \<lparr>code = 500, content = ErrorDetails (ascii ''API authentication failed'')
              (ascii ''Invalid or expired OpenAI API key'')\<rparr>
          else if status response = 429 then
            Replied \<lparr>code = 429, content = ErrorDetails (ascii ''Rate limit exceeded'')
              (ascii ''Too many requests. Please try again later.'')\<rparr>
          else
            Replied \<lparr>code = 502, content = ErrorDetails (ascii ''OpenAI API error'')
              (ascii ''API returned status '' @ dec (status response))\<rparr>)"

text \<open>
  \<^verbatim>\<open>data.results?.[0]?.flagged\<close>, which the handler logs: the first read throws on
  \<^verbatim>\<open>null\<close> and \<^verbatim>\<open>undefined\<close>, and each \<^verbatim>\<open>?.\<close> stops the chain at \<^verbatim>\<open>undefined\<close> or
  \<^verbatim>\<open>null\<close>.
\<close>

definition logged_flag :: "jsval \<Rightarrow> js_error + jsval" where
  "logged_flag data =
     (case js_member data (ascii ''results'') of
        Inl e \<Rightarrow> Inl e
      | Inr results \<Rightarrow>
          if results = JUndefined \<or> results = JNull then Inr JUndefined
          else (case js_index results 0 of
                  Inl e \<Rightarrow> Inl e
                | Inr first \<Rightarrow>
                    if first = JUndefined \<or> first = JNull then Inr JUndefined
                    else js_member first (ascii ''flagged'')))"

text \<open>The block after it: parse the body, log, and relay the parsed value.\<close>

definition parse_and_return :: "upstream_response \<Rightarrow> completion" where
  "parse_and_return response =
     (case json_body response of
        Inl e \<Rightarrow> Threw e
      | Inr data \<Rightarrow>
          (case logged_flag data of
             Inl e \<Rightarrow> Threw e
           | Inr flagged \<Rightarrow> Replied \<lparr>code = 200, content = Data data\<rparr>))"

text \<open>
  The \<^verbatim>\<open>try\<close> block of the handler of server.js, on the request body \<^verbatim>\<open>req.body\<close>. The
  second component lists the outbound calls made, in order.
\<close>

definition analyze_try :: "config \<Rightarrow> upstream \<Rightarrow> jsval \<Rightarrow> completion \<times> fetch_request list" where
  "analyze_try cfg upstream req_body =
     (case js_member req_body (ascii ''text'') of
        Inl e \<Rightarrow> (Threw e, [])
      | Inr text \<Rightarrow>
          if \<not> truthy text then
            (Replied \<lparr>code = 400, content = ErrorDetails (ascii ''Text is required'')
               (ascii ''Please provide text to analyze'')\<rparr>, [])
          else
            (case text of
               JStr s \<Rightarrow>
                 if length (trim s) = 0 then
                   (Replied \<lparr>code = 400, content = ErrorDetails (ascii ''Empty text'')
                      (ascii ''Please provide non-empty text to analyze'')\<rparr>, [])
                 else if length s > 10000 then
                   (Replied \<lparr>code = 400, content = ErrorDetails (ascii ''Text too long'')
                      (ascii ''Maximum 10,000 characters allowed'')\<rparr>, [])
                 else if \<not> truthy (env_value (OPENAI_API_KEY cfg)) then
                   (Replied \<lparr>code = 500,
                      content = ErrorDetails (ascii ''Server configuration error'')
                        (ascii ''OpenAI API key is not configured. Please contact the administrator.'')\<rparr>,
                    [])
                 else
                   (let call = moderation_call (OPENAI_API_KEY cfg) s in
                    case upstream call of
                      Pending \<Rightarrow> (Hung, [call])
                    | Rejected e \<Rightarrow> (Threw e, [call])
                    | Fulfilled response \<Rightarrow>
                        if \<not> ok response then (handle_api_errors response, [call])
                        else (parse_and_return response, [call]))
             | _ \<Rightarrow>
                 (Replied \<lparr>code = 400, content = ErrorDetails (ascii ''Invalid input type'')
                    (ascii ''Text must be a string'')\<rparr>, [])))"

text \<open>The \<^verbatim>\<open>catch\<close> block of server.js.\<close>

definition catch_reply :: "js_error \<Rightarrow> reply" where
  "catch_reply error =
     (if js_includes (message error) (ascii ''fetch'') then
        \<lparr>code = 502, content = ErrorDetails (ascii ''Failed to connect to OpenAI'')
           (ascii ''Could not reach OpenAI API. Please try again.'')\<rparr>
      else
        \<lparr>code = 500, content = ErrorDetails (ascii ''Internal server error'') (message error)\<rparr>)"

text \<open>
  The handler of server.js: the reply it sends (\<open>None\<close> when it never sends one) and the
  outbound calls it made.
\<close>

definition analyze :: "config \<Rightarrow> upstream \<Rightarrow> jsval \<Rightarrow> reply option \<times> fetch_request list" where
  "analyze cfg upstream req_body =
     (case analyze_try cfg upstream req_body of
        (Replied r, calls) \<Rightarrow> (Some r, calls)
      | (Threw e, calls) \<Rightarrow> (Some (catch_reply e), calls)
      | (Hung, calls) \<Rightarrow> (None, calls))"

section \<open>The earlier relay (the second server file)\<close>

text \<open>
  The repository holds a second, shorter \<^verbatim>\<open>POST /analyze\<close> handler. It replies with an
  \<^verbatim>\<open>error\<close> field only, checks the text in one condition, answers every non-success
  status alike, and reads the key from the environment on each request.
\<close>

definition analyze_try_short :: "config \<Rightarrow> upstream \<Rightarrow> jsval \<Rightarrow> completion \<times> fetch_request list" where
  "analyze_try_short cfg upstream req_body =
     (case js_member req_body (ascii ''text'') of
        Inl e \<Rightarrow> (Threw e, [])
      | Inr text \<Rightarrow>
          (case text of
             JStr s \<Rightarrow>
               if \<not> truthy text then
                 (Replied \<lparr>code = 400, content = ErrorOnly (ascii ''Valid text input is required'')\<rparr>, [])
               else if \<not> truthy (env_value (OPENAI_API_KEY cfg)) then
                 (Replied \<lparr>code = 500,
                    content = ErrorOnly (ascii ''Server configuration error (API key missing)'')\<rparr>, [])
               else
                 (let call = moderation_call (OPENAI_API_KEY cfg) s in
                  case upstream call of
                    Pending \<Rightarrow> (Hung, [call])
                  | Rejected e \<Rightarrow> (Threw e, [call])
                  | Fulfilled response \<Rightarrow>
                      if \<not> ok response then
                        (Replied \<lparr>code = 502,
                           content = ErrorOnly (ascii ''OpenAI moderation service failed'')\<rparr>, [call])
                      else
                        (case json_body response of
                           Inl e \<Rightarrow> (Threw e, [call])
                         | Inr data \<Rightarrow> (Replied \<lparr>code = 200, content = Data data\<rparr>, [call])))
           | _ \<Rightarrow>
               (Replied \<lparr>code = 400, content = ErrorOnly (ascii ''Valid text input is required'')\<rparr>, [])))"

definition analyze_short :: "config \<Rightarrow> upstream \<Rightarrow> jsval \<Rightarrow> reply option \<times> fetch_request list" where
  "analyze_short cfg upstream req_body =
     (case analyze_try_short cfg upstream req_body of
        (Replied r, calls) \<Rightarrow> (Some r, calls)
      | (Threw e, calls) \<Rightarrow>
          (Some \<lparr>code = 500, content = ErrorOnly (ascii ''Internal server error'')\<rparr>, calls)
      | (Hung, calls) \<Rightarrow> (None, calls))"

section \<open>Sample inputs and auxiliary notions\<close>

text \<open>
  The entries of \<^verbatim>\<open>categoryMap\<close> whose key the loop finds in an object: those whose
  value is not \<^verbatim>\<open>undefined\<close>.
\<close>

definition present :: "(jsstring \<times> jsval) list \<Rightarrow> (jsstring \<times> jsstring) list \<Rightarrow> (jsstring \<times> jsstring) list" where
  "present kvs ks = filter (\<lambda>(k, l). own_value kvs k \<noteq> JUndefined) ks"

text \<open>
  A moderation payload with two of the seven categories and one foreign key, and the same
  payload with the keys of every object in another order.
\<close>

definition sample_categories :: "(jsstring \<times> jsval) list" where
  "sample_categories = [(ascii ''violence'', JBool True), (ascii ''spam'', JBool True), (ascii ''hate'', JBool False)]"

definition sample_result :: jsval where
  "sample_result = JObj [(ascii ''flagged'', JBool True), (ascii ''categories'', JObj sample_categories)]"

definition sample_data :: jsval where
  "sample_data = JObj [(ascii ''id'', JStr (ascii ''modr-1'')), (ascii ''results'', JArr [sample_result])]"

definition sample_data_reordered :: jsval where
  "sample_data_reordered =
     JObj [(ascii ''results'',
            JArr [JObj [(ascii ''categories'',
                         JObj [(ascii ''hate'', JBool False), (ascii ''violence'', JBool True),
                               (ascii ''spam'', JBool True)]),
                        (ascii ''flagged'', JBool True)]]),
           (ascii ''id'', JStr (ascii ''modr-1''))]"

text \<open>A payload with all seven categories, only \<^verbatim>\<open>hate\<close> flagged.\<close>

definition only_hate_categories :: "(jsstring \<times> jsval) list" where
  "only_hate_categories =
     [(ascii ''harassment'', JBool False),
      (ascii ''harassment/threatening'', JBool False),
      (ascii ''hate'', JBool True),
      (ascii ''hate/threatening'', JBool False),
      (ascii ''self-harm'', JBool False),
      (ascii ''sexual'', JBool False),
      (ascii ''violence'', JBool False)]"

definition only_hate_result :: jsval where
  "only_hate_result =
     JObj [(ascii ''flagged'', JBool True), (ascii ''categories'', JObj only_hate_categories)]"

definition only_hate_data :: jsval where
  "only_hate_data = JObj [(ascii ''results'', JArr [only_hate_result])]"

text \<open>A payload whose category mapping is empty.\<close>

definition no_categories_data :: jsval where
  "no_categories_data =
     JObj [(ascii ''results'',
            JArr [JObj [(ascii ''flagged'', JBool False), (ascii ''categories'', JObj [])]])]"

text \<open>Requests, configurations and upstream behaviours.\<close>

definition text_request :: "jsval \<Rightarrow> jsval" where
  "text_request text = JObj [(ascii ''text'', text)]"

definition sample_request :: jsval where
  "sample_request = text_request (JStr (ascii ''I hate everyone''))"

definition sample_config :: config where
  "sample_config = \<lparr>OPENAI_API_KEY = Some (ascii ''sk-test'')\<rparr>"

definition no_key_config :: config where
  "no_key_config = \<lparr>OPENAI_API_KEY = None\<rparr>"

definition silent_upstream :: upstream where
  "silent_upstream call = Pending"

definition answering :: "upstream_response \<Rightarrow> upstream" where
  "answering response call = Fulfilled response"

definition failing :: "js_error \<Rightarrow> upstream" where
  "failing e call = Rejected e"

definition unauthorized_response :: upstream_response where
  "unauthorized_response =
     \<lparr>status = 401, text_body = Inr (ascii ''Incorrect API key provided''),
      json_body = Inr (JObj [(ascii ''error'', JStr (ascii ''Incorrect API key provided''))])\<rparr>"

definition rate_limited_response :: upstream_response where
  "rate_limited_response =
     \<lparr>status = 429, text_body = Inr (ascii ''Rate limit reached''),
      json_body = Inr (JObj [(ascii ''error'', JStr (ascii ''Rate limit reached''))])\<rparr>"

definition unavailable_response :: upstream_response where
  "unavailable_response =
     \<lparr>status = 503, text_body = Inr (ascii ''Service unavailable''),
      json_body = Inl (JsError (ascii ''Unexpected token S in JSON at position 0''))\<rparr>"

definition unparsable_response :: upstream_response where
  "unparsable_response =
     \<lparr>status = 200, text_body = Inr (ascii ''<html>''),
      json_body = Inl (JsError (ascii ''Unexpected token < in JSON at position 0''))\<rparr>"

definition moderation_response :: upstream_response where
  "moderation_response =
     \<lparr>status = 200, text_body = Inr [],
      json_body = Inr (JObj [(ascii ''results'', JArr [JObj [(ascii ''flagged'', JBool False)]])])\<rparr>"

section \<open>Basic facts\<close>

declare dec.simps [simp del]

lemma unat_of_char_16: "unat (of_char c :: 16 word) = of_char c"
proof -
  have "(of_char c :: 16 word) = of_nat (of_char c)" by (simp add: of_nat_of_char)
  moreover have "(of_char c :: nat) < 2 ^ 16"
    by (rule less_trans [OF nat_of_char_less_256]) simp
  ultimately show ?thesis by (simp add: of_nat_inverse)
qed

lemma of_char_16_inj: "(of_char c :: 16 word) = of_char d \<longleftrightarrow> c = d"
proof
  assume h: "(of_char c :: 16 word) = of_char d"
  then have "unat (of_char c :: 16 word) = unat (of_char d :: 16 word)" by simp
  then show "c = d" by (simp add: unat_of_char_16)
qed simp

lemma ascii_eq_iff [simp]: "ascii s = ascii t \<longleftrightarrow> s = t"
  unfolding ascii_def by (rule inj_map_eq_map) (simp add: inj_on_def of_char_16_inj)

lemma round_div_int: 
  assumes "0 < b" shows "round (of_int a / of_int b :: rat) = (2 * a + b) div (2 * b)"
proof -
  have "of_int a / of_int b + 1 / 2 = (of_int (2 * a + b) / of_int (2 * b) :: rat)"
    using assms by (simp add: field_simps)
  then show ?thesis
    unfolding round_def by (simp only: floor_divide_of_int_eq)
qed

lemma trim_Nil [simp]: "trim [] = []"
  by (simp add: trim_def)

lemma member_text_request [simp]: "js_member (text_request t) (ascii ''text'') = Inr t"
  by (simp add: text_request_def own_value_def)

lemma js_member_total: "v \<noteq> JNull \<Longrightarrow> v \<noteq> JUndefined \<Longrightarrow> \<exists>w. js_member v k = Inr w"
  by (cases v) simp_all

lemma js_index_total: "v \<noteq> JNull \<Longrightarrow> v \<noteq> JUndefined \<Longrightarrow> \<exists>w. js_index v i = Inr w"
  by (cases v) simp_all

section \<open>The aggregation loop\<close>

text \<open>
  On an object the loop never throws, and its result is the list of entries of the present
  keys, in the order of \<^verbatim>\<open>categoryMap\<close>, with their sum and their number.
\<close>

lemma category_loop_obj:
  "category_loop ks (JObj kvs) st =
     Inr \<lparr>pushed = pushed st @ map (\<lambda>(k, l). category_entry l (own_value kvs k)) (present kvs ks),
          total = total st + sum_list (map (\<lambda>(k, l). score (category_entry l (own_value kvs k))) (present kvs ks)),
          count = count st + int (length (present kvs ks))\<rparr>"
proof (induction ks arbitrary: st)
  case Nil
  show ?case by (simp add: present_def)
next
  case (Cons p ks)
  obtain k l where p: "p = (k, l)" by (cases p)
  show ?case
    by (simp add: p Cons.IH present_def)
qed

text \<open>Whatever the loop pushes is an entry built by \<open>category_entry\<close>.\<close>

lemma category_loop_pushed:
  "category_loop ks cats st = Inr st' \<Longrightarrow> c \<in> set (pushed st') \<Longrightarrow>
     c \<in> set (pushed st) \<or> (\<exists>l v. c = category_entry l v)"
proof (induction ks arbitrary: st)
  case Nil
  then show ?case by simp
next
  case (Cons p ks)
  obtain k l where p: "p = (k, l)" by (cases p)
  show ?case
  proof (cases "js_member cats k")
    case (Inl e)
    with Cons.prems p show ?thesis by simp
  next
    case (Inr v)
    show ?thesis
    proof (cases "v = JUndefined")
      case True
      with Cons.prems p Inr have "category_loop ks cats st = Inr st'" by simp
      from Cons.IH [OF this Cons.prems(2)] show ?thesis .
    next
      case False
      with Cons.prems p Inr have "category_loop ks cats
                 \<lparr>pushed = pushed st @ [category_entry l v],
                  total = total st + score (category_entry l v),
                  count = count st + 1\<rparr> = Inr st'" by simp
      from Cons.IH [OF this Cons.prems(2)] show ?thesis by auto
    qed
  qed
qed

lemma processApiResponse_obj:
  assumes "js_member data (ascii ''results'') = Inr results"
    and "js_index results 0 = Inr result"
    and "js_member result (ascii ''categories'') = Inr (JObj kvs)"
    and "js_member result (ascii ''flagged'') = Inr flagged"
    and "es = map (\<lambda>(k, l). category_entry l (own_value kvs k)) (present kvs categoryMap)"
    and "q = Math_round (js_div (sum_list (map score es)) (int (length es)))"
  shows "processApiResponse data =
     Inr \<lparr>overall = (if truthy flagged then Math_min 100 q else q), categories = es\<rparr>"
  using assms
  by (simp add: processApiResponse_def category_loop_obj o_def case_prod_unfold)

lemma sum_scores_le:
  assumes "\<forall>c \<in> set es. score c \<le> 85"
  shows "sum_list (map score es) \<le> 85 * int (length es)"
  using assms by (induction es) (auto simp: algebra_simps)

lemma mean_rounded:
  assumes "es \<noteq> []"
  shows "Math_round (js_div (sum_list (map score es)) (int (length es))) =
     Fin (of_int (round (of_int (sum_list (map score es)) / of_nat (length es) :: rat)))"
  using assms by (simp add: js_div_def)

lemma mean_at_most_85:
  assumes "es \<noteq> []" and "\<forall>c \<in> set es. score c \<le> 85"
  shows "round (of_int (sum_list (map score es)) / of_nat (length es) :: rat) \<le> 85"
proof -
  have pos: "(0::rat) < of_nat (length es)" using assms(1) by simp
  have "(of_int (sum_list (map score es)) :: rat) \<le> of_int (85 * int (length es))"
    using sum_scores_le [OF assms(2)] by (simp only: of_int_le_iff)
  then have "(of_int (sum_list (map score es)) :: rat) \<le> 85 * of_nat (length es)"
    by simp
  then have "(of_int (sum_list (map score es)) / of_nat (length es) :: rat) \<le> 85"
    using pos by (simp add: pos_divide_le_eq)
  from round_mono [OF this] show ?thesis by simp
qed

lemma min_100_mean:
  assumes "es \<noteq> []" and "\<forall>c \<in> set es. score c \<le> 85"
  shows "Math_min 100 (Math_round (js_div (sum_list (map score es)) (int (length es)))) =
     Math_round (js_div (sum_list (map score es)) (int (length es)))"
proof -
  have "(of_int (round (of_int (sum_list (map score es)) / of_nat (length es) :: rat)) :: rat) \<le> of_int 85"
    using mean_at_most_85 [OF assms] by (simp only: of_int_le_iff)
  then show ?thesis
    by (simp add: mean_rounded [OF assms(1)] min_def)
qed

lemma sample_reads:
  "js_member sample_data (ascii ''results'') = Inr (JArr [sample_result])"
  "js_index (JArr [sample_result]) 0 = Inr sample_result"
  "js_member sample_result (ascii ''categories'') = Inr (JObj sample_categories)"
  "js_member sample_result (ascii ''flagged'') = Inr (JBool True)"
  by (simp_all add: sample_data_def sample_result_def own_value_def)

lemma only_hate_reads:
  "js_member only_hate_data (ascii ''results'') = Inr (JArr [only_hate_result])"
  "js_index (JArr [only_hate_result]) 0 = Inr only_hate_result"
  "js_member only_hate_result (ascii ''categories'') = Inr (JObj only_hate_categories)"
  "js_member only_hate_result (ascii ''flagged'') = Inr (JBool True)"
  by (simp_all add: only_hate_data_def only_hate_result_def own_value_def)

lemma reordered_reads:
  "js_member sample_data_reordered (ascii ''results'') =
     Inr (JArr [JObj [(ascii ''categories'',
                         JObj [(ascii ''hate'', JBool False), (ascii ''violence'', JBool True),
                               (ascii ''spam'', JBool True)]),
                        (ascii ''flagged'', JBool True)]])"
  "js_index (JArr [JObj [(ascii ''categories'',
                         JObj [(ascii ''hate'', JBool False), (ascii ''violence'', JBool True),
                               (ascii ''spam'', JBool True)]),
                        (ascii ''flagged'', JBool True)]]) 0 =
     Inr (JObj [(ascii ''categories'',
                         JObj [(ascii ''hate'', JBool False), (ascii ''violence'', JBool True),
                               (ascii ''spam'', JBool True)]),
                        (ascii ''flagged'', JBool True)])"
  "js_member (JObj [(ascii ''categories'',
                         JObj [(ascii ''hate'', JBool False), (ascii ''violence'', JBool True),
                               (ascii ''spam'', JBool True)]),
                        (ascii ''flagged'', JBool True)]) (ascii ''categories'') =
     Inr (JObj [(ascii ''hate'', JBool False), (ascii ''violence'', JBool True),
                               (ascii ''spam'', JBool True)])"
  "js_member (JObj [(ascii ''categories'',
                         JObj [(ascii ''hate'', JBool False), (ascii ''violence'', JBool True),
                               (ascii ''spam'', JBool True)]),
                        (ascii ''flagged'', JBool True)]) (ascii ''flagged'') = Inr (JBool True)"
  by (simp_all add: sample_data_reordered_def own_value_def)

lemma sample_summary:
  "processApiResponse sample_data =
     Inr \<lparr>overall = Fin 45,
          categories = [\<lparr>name = ascii ''Hate'', score = 5, raw = 5 / 100\<rparr>,
                        \<lparr>name = ascii ''Violence'', score = 85, raw = 85 / 100\<rparr>]\<rparr>"
  by (simp add: processApiResponse_obj [OF sample_reads refl refl] present_def categoryMap_def
      sample_categories_def own_value_def category_entry_def js_div_def)

section \<open>Properties of the score aggregator\<close>

text \<open>
  Claim C1. Take a moderation payload whose first result has an object as category
  mapping, in which each of the seven fixed keys that occurs holds a boolean, and at least
  one of them occurs. Then \<open>processApiResponse\<close> returns a summary whose categories are
  the present keys in the order of \<^verbatim>\<open>categoryMap\<close>, each scored 85 when its flag is
  true and 5 when it is false, absent keys being skipped; and \<open>overall\<close> is the mean of
  these scores rounded to the nearest integer, whatever \<^verbatim>\<open>flagged\<close> is (the cap at 100
  never applies).
\<close>

theorem summarize_scores_and_mean:
  assumes "js_member data (ascii ''results'') = Inr results"
    and "js_index results 0 = Inr result"
    and "js_member result (ascii ''categories'') = Inr (JObj kvs)"
    and "js_member result (ascii ''flagged'') = Inr flagged"
    and bools: "\<forall>k \<in> fst ` set categoryMap. \<forall>v. map_of kvs k = Some v \<longrightarrow> (\<exists>b. v = JBool b)"
    and some: "\<exists>k \<in> fst ` set categoryMap. map_of kvs k \<noteq> None"
  shows "\<exists>s. processApiResponse data = Inr s
     \<and> categories s =
         map (\<lambda>(k, l). \<lparr>name = l,
                score = (if map_of kvs k = Some (JBool True) then 85 else 5),
                raw = (if map_of kvs k = Some (JBool True) then 85 else 5) / 100\<rparr>)
           (filter (\<lambda>(k, l). map_of kvs k \<noteq> None) categoryMap)
     \<and> overall s =
         Fin (of_int (round (of_int (sum_list (map score (categories s)))
                              / of_nat (length (categories s)) :: rat)))"
proof -
  define es where "es = map (\<lambda>(k, l). category_entry l (own_value kvs k)) (present kvs categoryMap)"
  define q where "q = Math_round (js_div (sum_list (map score es)) (int (length es)))"
  have run: "processApiResponse data =
      Inr \<lparr>overall = (if truthy flagged then Math_min 100 q else q), categories = es\<rparr>"
    by (rule processApiResponse_obj [OF assms(1-4) es_def q_def])
  have pres: "present kvs categoryMap = filter (\<lambda>(k, l). map_of kvs k \<noteq> None) categoryMap"
    unfolding present_def
  proof (rule filter_cong [OF refl])
    fix p assume "p \<in> set categoryMap"
    then have "fst p \<in> fst ` set categoryMap" by simp
    with bools have "\<forall>v. map_of kvs (fst p) = Some v \<longrightarrow> (\<exists>b. v = JBool b)" by blast
    then show "(case p of (k, l) \<Rightarrow> own_value kvs k \<noteq> JUndefined) =
        (case p of (k, l) \<Rightarrow> map_of kvs k \<noteq> None)"
      by (cases p) (auto simp: own_value_def split: option.splits)
  qed
  have entries: "es =
      map (\<lambda>(k, l). \<lparr>name = l,
             score = (if map_of kvs k = Some (JBool True) then 85 else 5),
             raw = (if map_of kvs k = Some (JBool True) then 85 else 5) / 100\<rparr>)
        (filter (\<lambda>(k, l). map_of kvs k \<noteq> None) categoryMap)"
    unfolding es_def pres
  proof (rule map_cong [OF refl])
    fix p assume "p \<in> set (filter (\<lambda>(k, l). map_of kvs k \<noteq> None) categoryMap)"
    then have "fst p \<in> fst ` set categoryMap" and "map_of kvs (fst p) \<noteq> None" by auto
    with bools obtain b where "map_of kvs (fst p) = Some (JBool b)" by blast
    then show "(case p of (k, l) \<Rightarrow> category_entry l (own_value kvs k)) =
        (case p of (k, l) \<Rightarrow> \<lparr>name = l,
             score = (if map_of kvs k = Some (JBool True) then 85 else 5),
             raw = (if map_of kvs k = Some (JBool True) then 85 else 5) / 100\<rparr>)"
      by (cases p) (simp add: own_value_def category_entry_def)
  qed
  have ne: "es \<noteq> []"
  proof -
    from some obtain k l where "(k, l) \<in> set categoryMap" and "map_of kvs k \<noteq> None" by auto
    then have "(k, l) \<in> set (present kvs categoryMap)" by (simp add: pres)
    then show ?thesis by (auto simp: es_def)
  qed
  have le: "\<forall>c \<in> set es. score c \<le> 85"
    by (auto simp: es_def category_entry_def Let_def)
  have capped: "Math_min 100 q = q"
    unfolding q_def by (rule min_100_mean [OF ne le])
  have "(if truthy flagged then Math_min 100 q else q) = q"
    by (simp add: capped)
  also have "q = Fin (of_int (round (of_int (sum_list (map score es)) / of_nat (length es) :: rat)))"
    unfolding q_def by (rule mean_rounded [OF ne])
  finally have "overall \<lparr>overall = (if truthy flagged then Math_min 100 q else q), categories = es\<rparr> =
      Fin (of_int (round (of_int (sum_list (map score es)) / of_nat (length es) :: rat)))"
    by simp
  with run entries show ?thesis by auto
qed

theorem summarize_scores_and_mean_witness:
  "processApiResponse sample_data =
     Inr \<lparr>overall = Fin 45,
          categories = [\<lparr>name = ascii ''Hate'', score = 5, raw = 5 / 100\<rparr>,
                        \<lparr>name = ascii ''Violence'', score = 85, raw = 85 / 100\<rparr>]\<rparr>"
proof -
  have bools: "\<forall>k \<in> fst ` set categoryMap. \<forall>v. map_of sample_categories k = Some v \<longrightarrow> (\<exists>b. v = JBool b)"
    by (auto simp: sample_categories_def categoryMap_def)
  have some: "\<exists>k \<in> fst ` set categoryMap. map_of sample_categories k \<noteq> None"
    by (simp add: sample_categories_def categoryMap_def)
  from summarize_scores_and_mean [OF sample_reads bools some]
  obtain s where "processApiResponse sample_data = Inr s"
    and "categories s = [\<lparr>name = ascii ''Hate'', score = 5, raw = 5 / 100\<rparr>,
                        \<lparr>name = ascii ''Violence'', score = 85, raw = 85 / 100\<rparr>]"
    and "overall s = Fin 45"
    by (auto simp: sample_categories_def categoryMap_def)
  then show ?thesis by simp
qed

text \<open>
  Claim C5. When all seven keys are present, \<^verbatim>\<open>hate\<close> is true and the six others are
  false, the summary has seven categories, Hate scored 85 and the others 5, \<open>overall\<close> is
  \<open>round (115 / 7) = 16\<close>, and \<open>displayVerdict\<close> puts it in the class \<^verbatim>\<open>safe\<close>.
\<close>

theorem verdict_class_not_danger_when_only_hate:
  assumes "js_member data (ascii ''results'') = Inr results"
    and "js_index results 0 = Inr result"
    and "js_member result (ascii ''categories'') = Inr (JObj kvs)"
    and "js_member result (ascii ''flagged'') = Inr flagged"
    and "map_of kvs (ascii ''hate'') = Some (JBool True)"
    and "map_of kvs (ascii ''harassment'') = Some (JBool False)"
    and "map_of kvs (ascii ''self-harm'') = Some (JBool False)"
    and "map_of kvs (ascii ''sexual'') = Some (JBool False)"
    and "map_of kvs (ascii ''violence'') = Some (JBool False)"
    and "map_of kvs (ascii ''hate/threatening'') = Some (JBool False)"
    and "map_of kvs (ascii ''harassment/threatening'') = Some (JBool False)"
  shows "\<exists>s. processApiResponse data = Inr s
     \<and> map (\<lambda>c. (name c, score c)) (categories s) =
         [(ascii ''Hate'', 85), (ascii ''Harassment'', 5), (ascii ''Self Harm'', 5),
          (ascii ''Sexual Content'', 5), (ascii ''Violence'', 5), (ascii ''Hate / Threat'', 5),
          (ascii ''Harassment / Threat'', 5)]
     \<and> overall s = Fin 16
     \<and> displayVerdict (overall s) = ascii ''safe''"
proof -
  define es where "es = map (\<lambda>(k, l). category_entry l (own_value kvs k)) (present kvs categoryMap)"
  define q where "q = Math_round (js_div (sum_list (map score es)) (int (length es)))"
  have run: "processApiResponse data =
      Inr \<lparr>overall = (if truthy flagged then Math_min 100 q else q), categories = es\<rparr>"
    by (rule processApiResponse_obj [OF assms(1-4) es_def q_def])
  have es: "map (\<lambda>c. (name c, score c)) es =
         [(ascii ''Hate'', 85), (ascii ''Harassment'', 5), (ascii ''Self Harm'', 5),
          (ascii ''Sexual Content'', 5), (ascii ''Violence'', 5), (ascii ''Hate / Threat'', 5),
          (ascii ''Harassment / Threat'', 5)]"
    using assms(5-11)
    by (simp add: es_def present_def categoryMap_def own_value_def category_entry_def)
  have "sum_list (map score es) = 115" and "length es = 7"
    using arg_cong [OF es, of "\<lambda>xs. sum_list (map snd xs)"] arg_cong [OF es, of length]
    by (simp_all add: o_def)
  then have q: "q = Fin 16"
    using round_div_int [of 7 115] by (simp add: q_def js_div_def)
  show ?thesis
    using run es by (simp add: q displayVerdict_def)
qed

theorem verdict_class_not_danger_when_only_hate_witness:
  "\<exists>s. processApiResponse only_hate_data = Inr s
     \<and> map (\<lambda>c. (name c, score c)) (categories s) =
         [(ascii ''Hate'', 85), (ascii ''Harassment'', 5), (ascii ''Self Harm'', 5),
          (ascii ''Sexual Content'', 5), (ascii ''Violence'', 5), (ascii ''Hate / Threat'', 5),
          (ascii ''Harassment / Threat'', 5)]
     \<and> overall s = Fin 16
     \<and> displayVerdict (overall s) = ascii ''safe''"
  by (rule verdict_class_not_danger_when_only_hate [OF only_hate_reads])
    (simp_all add: only_hate_categories_def)

text \<open>
  Claim C9. The summary is a function of the payload alone, and it does not depend on the
  order of the keys in the category mapping: two payloads whose mappings hold the same
  properties, in any order, and whose \<^verbatim>\<open>flagged\<close> agree, get the same summary. The names
  of its categories are the labels of the present keys in the order of \<^verbatim>\<open>categoryMap\<close>
  (hate, harassment, self-harm, sexual, violence, hate/threatening,
  harassment/threatening).
\<close>

theorem category_order_is_fixed:
  assumes "js_member data (ascii ''results'') = Inr results"
    and "js_index results 0 = Inr result"
    and "js_member result (ascii ''categories'') = Inr (JObj kvs)"
    and "js_member result (ascii ''flagged'') = Inr flagged"
    and "js_member data' (ascii ''results'') = Inr results'"
    and "js_index results' 0 = Inr result'"
    and "js_member result' (ascii ''categories'') = Inr (JObj kvs')"
    and "js_member result' (ascii ''flagged'') = Inr flagged"
    and "distinct (map fst kvs)" and "distinct (map fst kvs')" and "set kvs' = set kvs"
  shows "processApiResponse data' = processApiResponse data
     \<and> (\<exists>s. processApiResponse data = Inr s
          \<and> map name (categories s) =
              map snd (filter (\<lambda>(k, l). own_value kvs k \<noteq> JUndefined) categoryMap))"
proof -
  have "map_of kvs' = map_of kvs"
    using assms(9-11) by (simp add: map_of_inject_set)
  then have same: "own_value kvs' = own_value kvs"
    by (simp add: own_value_def fun_eq_iff)
  have a: "processApiResponse data =
      Inr \<lparr>overall = (if truthy flagged
             then Math_min 100 (Math_round (js_div (sum_list (map score (map (\<lambda>(k, l). category_entry l (own_value kvs k)) (present kvs categoryMap)))) (int (length (map (\<lambda>(k, l). category_entry l (own_value kvs k)) (present kvs categoryMap))))))
             else Math_round (js_div (sum_list (map score (map (\<lambda>(k, l). category_entry l (own_value kvs k)) (present kvs categoryMap)))) (int (length (map (\<lambda>(k, l). category_entry l (own_value kvs k)) (present kvs categoryMap)))))),
           categories = map (\<lambda>(k, l). category_entry l (own_value kvs k)) (present kvs categoryMap)\<rparr>"
    by (rule processApiResponse_obj [OF assms(1-4) refl refl])
  have b: "processApiResponse data' =
      Inr \<lparr>overall = (if truthy flagged
             then Math_min 100 (Math_round (js_div (sum_list (map score (map (\<lambda>(k, l). category_entry l (own_value kvs' k)) (present kvs' categoryMap)))) (int (length (map (\<lambda>(k, l). category_entry l (own_value kvs' k)) (present kvs' categoryMap))))))
             else Math_round (js_div (sum_list (map score (map (\<lambda>(k, l). category_entry l (own_value kvs' k)) (present kvs' categoryMap)))) (int (length (map (\<lambda>(k, l). category_entry l (own_value kvs' k)) (present kvs' categoryMap)))))),
           categories = map (\<lambda>(k, l). category_entry l (own_value kvs' k)) (present kvs' categoryMap)\<rparr>"
    by (rule processApiResponse_obj [OF assms(5-8) refl refl])
  have names: "map name (map (\<lambda>(k, l). category_entry l (own_value kvs k)) (present kvs categoryMap)) =
      map snd (filter (\<lambda>(k, l). own_value kvs k \<noteq> JUndefined) categoryMap)"
    by (simp add: present_def category_entry_def Let_def o_def case_prod_unfold)
  show ?thesis
    unfolding b a using names by (simp add: same present_def)
qed

theorem category_order_is_fixed_witness:
  "processApiResponse sample_data_reordered = processApiResponse sample_data
     \<and> (\<exists>s. processApiResponse sample_data = Inr s
          \<and> map name (categories s) = [ascii ''Hate'', ascii ''Violence''])"
proof -
  have d: "distinct (map fst sample_categories)"
    "distinct (map fst [(ascii ''hate'', JBool False), (ascii ''violence'', JBool True),
                               (ascii ''spam'', JBool True)])"
    "set [(ascii ''hate'', JBool False), (ascii ''violence'', JBool True),
                               (ascii ''spam'', JBool True)] = set sample_categories"
    by (auto simp: sample_categories_def)
  from category_order_is_fixed [OF sample_reads reordered_reads d]
  show ?thesis
    by (simp add: categoryMap_def sample_categories_def own_value_def)
qed

text \<open>
  Claim C10. Every category of a summary that \<open>processApiResponse\<close> returns, on any
  payload, has score 5 or 85 and \<open>raw = score / 100\<close>, that is \<open>0.05\<close> or \<open>0.85\<close>; so
  \<open>createCategoryCard\<close> gives it the class \<^verbatim>\<open>safe\<close> or \<^verbatim>\<open>danger\<close> and never
  \<^verbatim>\<open>warning\<close>.
\<close>

theorem category_scores_are_5_or_85:
  assumes "processApiResponse data = Inr s"
  shows "\<forall>c \<in> set (categories s).
     (score c = 5 \<or> score c = 85)
     \<and> raw c = of_int (score c) / 100
     \<and> (raw c = 5 / 100 \<or> raw c = 85 / 100)
     \<and> (severityClass c = ascii ''safe'' \<or> severityClass c = ascii ''danger'')
     \<and> severityClass c \<noteq> ascii ''warning''"
proof
  fix c assume c: "c \<in> set (categories s)"
  from assms obtain cats st where loop: "category_loop categoryMap cats \<lparr>pushed = [], total = 0, count = 0\<rparr> = Inr st"
    and s: "categories s = pushed st"
    by (auto simp: processApiResponse_def split: sum.splits)
  from c s have "c \<in> set (pushed st)" by simp
  from category_loop_pushed [OF loop this] obtain l v where "c = category_entry l v"
    by auto
  then show "(score c = 5 \<or> score c = 85)
     \<and> raw c = of_int (score c) / 100
     \<and> (raw c = 5 / 100 \<or> raw c = 85 / 100)
     \<and> (severityClass c = ascii ''safe'' \<or> severityClass c = ascii ''danger'')
     \<and> severityClass c \<noteq> ascii ''warning''"
    by (simp add: category_entry_def severityClass_def Let_def)
qed

theorem category_scores_are_5_or_85_witness:
  "\<lparr>name = ascii ''Violence'', score = 85, raw = 85 / 100\<rparr>
       \<in> set [\<lparr>name = ascii ''Hate'', score = 5, raw = 5 / 100\<rparr>,
               \<lparr>name = ascii ''Violence'', score = 85, raw = 85 / 100\<rparr>]
     \<and> score \<lparr>name = ascii ''Violence'', score = 85, raw = 85 / 100\<rparr> = 85
     \<and> raw \<lparr>name = ascii ''Violence'', score = 85, raw = 85 / 100\<rparr> = 85 / 100
     \<and> severityClass \<lparr>name = ascii ''Violence'', score = 85, raw = 85 / 100\<rparr> = ascii ''danger''
     \<and> severityClass \<lparr>name = ascii ''Hate'', score = 5, raw = 5 / 100\<rparr> = ascii ''safe''"
  using category_scores_are_5_or_85 [OF sample_summary]
  by (simp add: severityClass_def)

text \<open>
  Claim C4. The claim asks for a guard when none of the seven keys is present. The code has
  none: on an empty category mapping \<^verbatim>\<open>total / count\<close> is \<^verbatim>\<open>0 / 0\<close>, \<open>overall\<close> is
  NaN instead of an error or 0, and since every comparison with NaN is false
  \<open>displayVerdict\<close> shows the class \<^verbatim>\<open>danger\<close>.
\<close>

theorem no_categories_gives_NaN:
  "processApiResponse no_categories_data = Inr \<lparr>overall = NaN, categories = []\<rparr>
     \<and> displayVerdict NaN = ascii ''danger''"
  by (simp add: processApiResponse_def no_categories_data_def own_value_def categoryMap_def
      js_div_def displayVerdict_def)

section \<open>Properties of the relay\<close>

text \<open>
  Once the text is a string that is not blank and not too long and a key is configured,
  the handler makes exactly one call, and what follows depends on the outcome of that call
  alone.
\<close>

lemma analyze_try_valid:
  assumes "js_member req_body (ascii ''text'') = Inr (JStr s)"
    and "trim s \<noteq> []" and "length s \<le> 10000"
    and "OPENAI_API_KEY cfg = Some key" and "key \<noteq> []"
  shows "analyze_try cfg upstream req_body =
     (case upstream (moderation_call (Some key) s) of
        Pending \<Rightarrow> Hung
      | Rejected e \<Rightarrow> Threw e
      | Fulfilled response \<Rightarrow>
          if ok response then parse_and_return response else handle_api_errors response,
      [moderation_call (Some key) s])"
proof -
  from assms(2) have "s \<noteq> []" by auto
  with assms show ?thesis
    by (simp add: analyze_try_def env_value_def Let_def split: fetch_outcome.splits)
qed

lemma analyze_try_short_valid:
  assumes "js_member req_body (ascii ''text'') = Inr (JStr s)"
    and "s \<noteq> []"
    and "OPENAI_API_KEY cfg = Some key" and "key \<noteq> []"
  shows "analyze_try_short cfg upstream req_body =
     (case upstream (moderation_call (Some key) s) of
        Pending \<Rightarrow> Hung
      | Rejected e \<Rightarrow> Threw e
      | Fulfilled response \<Rightarrow>
          if ok response then
            (case json_body response of
               Inl e \<Rightarrow> Threw e
             | Inr data \<Rightarrow> Replied \<lparr>code = 200, content = Data data\<rparr>)
          else Replied \<lparr>code = 502, content = ErrorOnly (ascii ''OpenAI moderation service failed'')\<rparr>,
      [moderation_call (Some key) s])"
  using assms
  by (simp add: analyze_try_short_def env_value_def Let_def split: fetch_outcome.splits sum.splits)

lemma logged_flag_total:
  assumes "data \<noteq> JNull" and "data \<noteq> JUndefined"
  shows "\<exists>v. logged_flag data = Inr v"
proof -
  from js_member_total [OF assms] obtain results
    where r: "js_member data (ascii ''results'') = Inr results" by blast
  show ?thesis
  proof (cases "results = JUndefined \<or> results = JNull")
    case True
    with r show ?thesis by (simp add: logged_flag_def)
  next
    case False
    then obtain first where f: "js_index results 0 = Inr first"
      using js_index_total [of results 0] by blast
    show ?thesis
    proof (cases "first = JUndefined \<or> first = JNull")
      case True
      with r f False show ?thesis by (simp add: logged_flag_def)
    next
      case False2: False
      then obtain w where "js_member first (ascii ''flagged'') = Inr w"
        using js_member_total [of first "ascii ''flagged''"] by blast
      with r f False False2 show ?thesis by (simp add: logged_flag_def)
    qed
  qed
qed

lemma sample_text_valid:
  "trim (ascii ''I hate everyone'') \<noteq> []" "length (ascii ''I hate everyone'') \<le> 10000"
  by (simp_all add: ascii_def trim_def is_white_space_def)

lemma sample_request_text [simp]:
  "js_member sample_request (ascii ''text'') = Inr (JStr (ascii ''I hate everyone''))"
  by (simp add: sample_request_def)

lemma sample_key [simp]:
  "OPENAI_API_KEY sample_config = Some (ascii ''sk-test'')" "ascii ''sk-test'' \<noteq> []"
  by (simp_all add: sample_config_def ascii_def)

text \<open>
  Claim C2, as the code has it. The four checks run in this order and each replies 400
  without any outbound call: a falsy text (absent, \<^verbatim>\<open>null\<close>, \<^verbatim>\<open>false\<close>, \<^verbatim>\<open>0\<close> or the
  empty string) gets \<^verbatim>\<open>Text is required\<close>; a truthy text that is no string gets
  \<^verbatim>\<open>Invalid input type\<close>; a non-empty string that is empty after trimming gets
  \<^verbatim>\<open>Empty text\<close>; a string that is not blank and longer than 10000 gets
  \<^verbatim>\<open>Text too long\<close>.
\<close>

theorem validation_order:
  assumes "js_member req_body (ascii ''text'') = Inr text"
  shows "(\<not> truthy text \<longrightarrow>
            analyze cfg upstream req_body =
              (Some \<lparr>code = 400, content = ErrorDetails (ascii ''Text is required'')
                 (ascii ''Please provide text to analyze'')\<rparr>, []))
     \<and> (truthy text \<and> (\<forall>s. text \<noteq> JStr s) \<longrightarrow>
            analyze cfg upstream req_body =
              (Some \<lparr>code = 400, content = ErrorDetails (ascii ''Invalid input type'')
                 (ascii ''Text must be a string'')\<rparr>, []))
     \<and> (\<forall>s. text = JStr s \<and> s \<noteq> [] \<and> trim s = [] \<longrightarrow>
            analyze cfg upstream req_body =
              (Some \<lparr>code = 400, content = ErrorDetails (ascii ''Empty text'')
                 (ascii ''Please provide non-empty text to analyze'')\<rparr>, []))
     \<and> (\<forall>s. text = JStr s \<and> trim s \<noteq> [] \<and> 10000 < length s \<longrightarrow>
            analyze cfg upstream req_body =
              (Some \<lparr>code = 400, content = ErrorDetails (ascii ''Text too long'')
                 (ascii ''Maximum 10,000 characters allowed'')\<rparr>, []))"
proof (intro conjI impI allI)
  assume "\<not> truthy text"
  with assms show "analyze cfg upstream req_body =
              (Some \<lparr>code = 400, content = ErrorDetails (ascii ''Text is required'')
                 (ascii ''Please provide text to analyze'')\<rparr>, [])"
    by (simp add: analyze_def analyze_try_def)
next
  assume "truthy text \<and> (\<forall>s. text \<noteq> JStr s)"
  with assms show "analyze cfg upstream req_body =
              (Some \<lparr>code = 400, content = ErrorDetails (ascii ''Invalid input type'')
                 (ascii ''Text must be a string'')\<rparr>, [])"
    by (cases "text") (simp_all add: analyze_def analyze_try_def)
next
  fix s assume "text = JStr s \<and> s \<noteq> [] \<and> trim s = []"
  with assms show "analyze cfg upstream req_body =
              (Some \<lparr>code = 400, content = ErrorDetails (ascii ''Empty text'')
                 (ascii ''Please provide non-empty text to analyze'')\<rparr>, [])"
    by (simp add: analyze_def analyze_try_def)
next
  fix s assume h: "text = JStr s \<and> trim s \<noteq> [] \<and> 10000 < length s"
  then have "s \<noteq> []" by auto
  with h assms show "analyze cfg upstream req_body =
              (Some \<lparr>code = 400, content = ErrorDetails (ascii ''Text too long'')
                 (ascii ''Maximum 10,000 characters allowed'')\<rparr>, [])"
    by (simp add: analyze_def analyze_try_def)
qed

theorem validation_order_witness:
  "analyze sample_config silent_upstream (JObj []) =
     (Some \<lparr>code = 400, content = ErrorDetails (ascii ''Text is required'')
        (ascii ''Please provide text to analyze'')\<rparr>, [])
   \<and> analyze sample_config silent_upstream (text_request (JNum 42)) =
     (Some \<lparr>code = 400, content = ErrorDetails (ascii ''Invalid input type'')
        (ascii ''Text must be a string'')\<rparr>, [])
   \<and> analyze sample_config silent_upstream (text_request (JStr [0x20, 0x09, 0x3000])) =
     (Some \<lparr>code = 400, content = ErrorDetails (ascii ''Empty text'')
        (ascii ''Please provide non-empty text to analyze'')\<rparr>, [])
   \<and> analyze sample_config silent_upstream (text_request (JStr (replicate 10001 0x61))) =
     (Some \<lparr>code = 400, content = ErrorDetails (ascii ''Text too long'')
        (ascii ''Maximum 10,000 characters allowed'')\<rparr>, [])"
proof -
  have absent: "js_member (JObj []) (ascii ''text'') = Inr JUndefined"
    by (simp add: own_value_def)
  have blank: "trim [0x20, 0x09, 0x3000] = []"
    by (simp add: trim_def is_white_space_def)
  have long: "trim (replicate 10001 0x61) \<noteq> []"
    by (simp add: trim_def is_white_space_def)
  show ?thesis
    using validation_order [OF absent, of sample_config silent_upstream]
      validation_order [OF member_text_request, of "JNum 42" sample_config silent_upstream]
      validation_order [OF member_text_request, of "JStr [0x20, 0x09, 0x3000]" sample_config silent_upstream]
      validation_order [OF member_text_request, of "JStr (replicate 10001 0x61)" sample_config silent_upstream]
    by (simp add: blank long)
qed

text \<open>
  Claim C2 as stated fails on the empty string: \<^verbatim>\<open>!text\<close> holds for it, so the reply is
  \<^verbatim>\<open>Text is required\<close> and not \<^verbatim>\<open>Empty text\<close>.
\<close>

theorem empty_string_is_reported_missing:
  "fst (analyze sample_config silent_upstream (text_request (JStr []))) =
     Some \<lparr>code = 400, content = ErrorDetails (ascii ''Text is required'')
       (ascii ''Please provide text to analyze'')\<rparr>
   \<and> fst (analyze sample_config silent_upstream (text_request (JStr []))) \<noteq>
     Some \<lparr>code = 400, content = ErrorDetails (ascii ''Empty text'')
       (ascii ''Please provide non-empty text to analyze'')\<rparr>"
  by (simp add: analyze_def analyze_try_def)

text \<open>
  Claim C3, as the code has it. For a valid request with a key, when the upstream answers
  with a status outside 200..299 and its body is read: status 401 gets
  \<^verbatim>\<open>API authentication failed\<close> with local status 500, status 429 gets
  \<^verbatim>\<open>Rate limit exceeded\<close> with local status 429, and every other status gets
  \<^verbatim>\<open>OpenAI API error\<close> with local status 502 and the upstream status printed in the
  details.
\<close>

theorem upstream_status_mapping:
  assumes "js_member req_body (ascii ''text'') = Inr (JStr s)"
    and "trim s \<noteq> []" and "length s \<le> 10000"
    and "OPENAI_API_KEY cfg = Some key" and "key \<noteq> []"
    and "upstream (moderation_call (Some key) s) = Fulfilled response"
    and "\<not> ok response"
    and "text_body response = Inr errorText"
  shows "analyze cfg upstream req_body =
     (Some (if status response = 401 then
              \<lparr>code = 500, content = ErrorDetails (ascii ''API authentication failed'')
                 (ascii ''Invalid or expired OpenAI API key'')\<rparr>
            else if status response = 429 then
              \<lparr>code = 429, content = ErrorDetails (ascii ''Rate limit exceeded'')
                 (ascii ''Too many requests. Please try again later.'')\<rparr>
            else
              \<lparr>code = 502, content = ErrorDetails (ascii ''OpenAI API error'')
                 (ascii ''API returned status '' @ dec (status response))\<rparr>),
      [moderation_call (Some key) s])"
  using assms(6-8)
  by (simp add: analyze_def analyze_try_valid [OF assms(1-5)] handle_api_errors_def)

theorem upstream_status_mapping_witness:
  "analyze sample_config (answering unauthorized_response) sample_request =
     (Some \<lparr>code = 500, content = ErrorDetails (ascii ''API authentication failed'')
        (ascii ''Invalid or expired OpenAI API key'')\<rparr>,
      [moderation_call (Some (ascii ''sk-test'')) (ascii ''I hate everyone'')])
   \<and> analyze sample_config (answering rate_limited_response) sample_request =
     (Some \<lparr>code = 429, content = ErrorDetails (ascii ''Rate limit exceeded'')
        (ascii ''Too many requests. Please try again later.'')\<rparr>,
      [moderation_call (Some (ascii ''sk-test'')) (ascii ''I hate everyone'')])
   \<and> analyze sample_config (answering unavailable_response) sample_request =
     (Some \<lparr>code = 502, content = ErrorDetails (ascii ''OpenAI API error'')
        (ascii ''API returned status 503'')\<rparr>,
      [moderation_call (Some (ascii ''sk-test'')) (ascii ''I hate everyone'')])"
proof -
  have d: "dec 503 = ascii ''503''"
    by (simp add: dec.simps ascii_def digit_def)
  have e: "ascii ''API returned status '' @ ascii ''503'' = ascii ''API returned status 503''"
    by (simp add: ascii_def)
  show ?thesis
    using upstream_status_mapping [OF sample_request_text sample_text_valid sample_key,
        of "answering unauthorized_response" unauthorized_response]
      upstream_status_mapping [OF sample_request_text sample_text_valid sample_key,
        of "answering rate_limited_response" rate_limited_response]
      upstream_status_mapping [OF sample_request_text sample_text_valid sample_key,
        of "answering unavailable_response" unavailable_response]
    by (simp add: answering_def ok_def unauthorized_response_def rate_limited_response_def
        unavailable_response_def d e)
qed

text \<open>
  Claim C3 as stated fails at 401: this upstream failure is not a rate limit, and it is
  reported with status 500, not 502.
\<close>

theorem authentication_failure_is_reported_as_500:
  "map_option code (fst (analyze sample_config (answering unauthorized_response) sample_request)) = Some 500
   \<and> map_option code (fst (analyze sample_config (answering unauthorized_response) sample_request)) \<noteq> Some 502"
  by (simp add: analyze_def analyze_try_valid [OF sample_request_text sample_text_valid sample_key]
      answering_def ok_def unauthorized_response_def handle_api_errors_def)

text \<open>
  Claim C8. For a request that passes validation, when no key is configured both handlers
  reply 500 with a configuration error and make no outbound call.
\<close>

theorem missing_key_is_reported_before_any_call:
  assumes "js_member req_body (ascii ''text'') = Inr (JStr s)"
    and "trim s \<noteq> []" and "length s \<le> 10000"
    and "OPENAI_API_KEY cfg = None"
  shows "analyze cfg upstream req_body =
       (Some \<lparr>code = 500, content = ErrorDetails (ascii ''Server configuration error'')
          (ascii ''OpenAI API key is not configured. Please contact the administrator.'')\<rparr>, [])
     \<and> analyze_short cfg upstream req_body =
       (Some \<lparr>code = 500,
          content = ErrorOnly (ascii ''Server configuration error (API key missing)'')\<rparr>, [])"
proof -
  from assms(2) have "s \<noteq> []" by auto
  with assms show ?thesis
    by (simp add: analyze_def analyze_try_def analyze_short_def analyze_try_short_def env_value_def)
qed

theorem missing_key_is_reported_before_any_call_witness:
  "analyze no_key_config silent_upstream sample_request =
       (Some \<lparr>code = 500, content = ErrorDetails (ascii ''Server configuration error'')
          (ascii ''OpenAI API key is not configured. Please contact the administrator.'')\<rparr>, [])
     \<and> analyze_short no_key_config silent_upstream sample_request =
       (Some \<lparr>code = 500,
          content = ErrorOnly (ascii ''Server configuration error (API key missing)'')\<rparr>, [])"
proof -
  have "OPENAI_API_KEY no_key_config = None" by (simp add: no_key_config_def)
  from missing_key_is_reported_before_any_call [OF sample_request_text sample_text_valid this]
  show ?thesis .
qed

text \<open>
  Claim C7, as the code has it. On a success status both handlers parse the body as JSON
  and check no shape. When parsing throws, the exception reaches the catch-all: server.js
  replies 500 \<^verbatim>\<open>Internal server error\<close> with the exception's message (502
  \<^verbatim>\<open>Failed to connect to OpenAI\<close> when the message contains \<^verbatim>\<open>fetch\<close>), the shorter
  handler replies 500 \<^verbatim>\<open>Internal server error\<close>. When parsing gives a value other than
  \<^verbatim>\<open>null\<close>, that value is the reply, unchanged, with status 200.
\<close>

theorem parsed_body_is_relayed:
  assumes "js_member req_body (ascii ''text'') = Inr (JStr s)"
    and "trim s \<noteq> []" and "length s \<le> 10000"
    and "OPENAI_API_KEY cfg = Some key" and "key \<noteq> []"
    and "upstream (moderation_call (Some key) s) = Fulfilled response"
    and "ok response"
  shows "(\<forall>e. json_body response = Inl e \<longrightarrow>
            analyze cfg upstream req_body =
              (Some (if js_includes (message e) (ascii ''fetch'') then
                       \<lparr>code = 502, content = ErrorDetails (ascii ''Failed to connect to OpenAI'')
                          (ascii ''Could not reach OpenAI API. Please try again.'')\<rparr>
                     else
                       \<lparr>code = 500, content = ErrorDetails (ascii ''Internal server error'')
                          (message e)\<rparr>),
               [moderation_call (Some key) s])
          \<and> analyze_short cfg upstream req_body =
              (Some \<lparr>code = 500, content = ErrorOnly (ascii ''Internal server error'')\<rparr>,
               [moderation_call (Some key) s]))
     \<and> (\<forall>data. json_body response = Inr data \<and> data \<noteq> JNull \<and> data \<noteq> JUndefined \<longrightarrow>
            analyze cfg upstream req_body =
              (Some \<lparr>code = 200, content = Data data\<rparr>, [moderation_call (Some key) s])
          \<and> analyze_short cfg upstream req_body =
              (Some \<lparr>code = 200, content = Data data\<rparr>, [moderation_call (Some key) s]))"
proof -
  from assms(2) have ne: "s \<noteq> []" by auto
  note long = analyze_try_valid [OF assms(1-5)]
  note short = analyze_try_short_valid [OF assms(1) ne assms(4,5)]
  show ?thesis
  proof (intro conjI allI impI)
    fix e assume "json_body response = Inl e"
    with assms(6,7) show "analyze cfg upstream req_body =
              (Some (if js_includes (message e) (ascii ''fetch'') then
                       \<lparr>code = 502, content = ErrorDetails (ascii ''Failed to connect to OpenAI'')
                          (ascii ''Could not reach OpenAI API. Please try again.'')\<rparr>
                     else
                       \<lparr>code = 500, content = ErrorDetails (ascii ''Internal server error'')
                          (message e)\<rparr>),
               [moderation_call (Some key) s])"
      by (simp add: analyze_def long parse_and_return_def catch_reply_def)
  next
    fix e assume "json_body response = Inl e"
    with assms(6,7) show "analyze_short cfg upstream req_body =
              (Some \<lparr>code = 500, content = ErrorOnly (ascii ''Internal server error'')\<rparr>,
               [moderation_call (Some key) s])"
      by (simp add: analyze_short_def short)
  next
    fix data assume h: "json_body response = Inr data \<and> data \<noteq> JNull \<and> data \<noteq> JUndefined"
    then obtain v where "logged_flag data = Inr v"
      using logged_flag_total [of data] by blast
    with h assms(6,7) show "analyze cfg upstream req_body =
              (Some \<lparr>code = 200, content = Data data\<rparr>, [moderation_call (Some key) s])"
      by (simp add: analyze_def long parse_and_return_def)
  next
    fix data assume "json_body response = Inr data \<and> data \<noteq> JNull \<and> data \<noteq> JUndefined"
    with assms(6,7) show "analyze_short cfg upstream req_body =
              (Some \<lparr>code = 200, content = Data data\<rparr>, [moderation_call (Some key) s])"
      by (simp add: analyze_short_def short)
  qed
qed

theorem parsed_body_is_relayed_witness:
  "analyze sample_config (answering moderation_response) sample_request =
     (Some \<lparr>code = 200,
        content = Data (JObj [(ascii ''results'', JArr [JObj [(ascii ''flagged'', JBool False)]])])\<rparr>,
      [moderation_call (Some (ascii ''sk-test'')) (ascii ''I hate everyone'')])
   \<and> analyze_short sample_config (answering moderation_response) sample_request =
     (Some \<lparr>code = 200,
        content = Data (JObj [(ascii ''results'', JArr [JObj [(ascii ''flagged'', JBool False)]])])\<rparr>,
      [moderation_call (Some (ascii ''sk-test'')) (ascii ''I hate everyone'')])
   \<and> analyze sample_config (answering unparsable_response) sample_request =
     (Some \<lparr>code = 500, content = ErrorDetails (ascii ''Internal server error'')
        (ascii ''Unexpected token < in JSON at position 0'')\<rparr>,
      [moderation_call (Some (ascii ''sk-test'')) (ascii ''I hate everyone'')])
   \<and> analyze_short sample_config (answering unparsable_response) sample_request =
     (Some \<lparr>code = 500, content = ErrorOnly (ascii ''Internal server error'')\<rparr>,
      [moderation_call (Some (ascii ''sk-test'')) (ascii ''I hate everyone'')])"
proof -
  have nf: "\<not> js_includes (ascii ''Unexpected token < in JSON at position 0'') (ascii ''fetch'')"
    by code_simp
  show ?thesis
    using parsed_body_is_relayed [OF sample_request_text sample_text_valid sample_key,
        of "answering moderation_response" moderation_response]
      parsed_body_is_relayed [OF sample_request_text sample_text_valid sample_key,
        of "answering unparsable_response" unparsable_response]
    by (simp add: answering_def ok_def moderation_response_def unparsable_response_def nf)
qed

text \<open>
  Claim C7 as stated fails on a body that is no JSON: there is no error of its own for a
  malformed upstream body. The reply is the catch-all's 500 \<^verbatim>\<open>Internal server error\<close>,
  the very reply the handler gives when \<^verbatim>\<open>fetch\<close> itself throws with the same message.
\<close>

theorem unparsable_body_gets_the_catch_all_reply:
  "fst (analyze sample_config (answering unparsable_response) sample_request) =
     Some \<lparr>code = 500, content = ErrorDetails (ascii ''Internal server error'')
        (ascii ''Unexpected token < in JSON at position 0'')\<rparr>
   \<and> fst (analyze sample_config (answering unparsable_response) sample_request) =
     fst (analyze sample_config
            (failing (JsError (ascii ''Unexpected token < in JSON at position 0''))) sample_request)"
proof -
  have nf: "\<not> js_includes (ascii ''Unexpected token < in JSON at position 0'') (ascii ''fetch'')"
    by code_simp
  show ?thesis
    by (simp add: analyze_def analyze_try_valid [OF sample_request_text sample_text_valid sample_key]
      answering_def failing_def ok_def unparsable_response_def parse_and_return_def catch_reply_def nf)
qed

text \<open>
  Claim C6. The claim asks for a bounded timeout on the outbound call. The relay passes
  \<^verbatim>\<open>fetch\<close> neither a signal nor a timeout, so when the upstream never answers the
  handler awaits forever: one call is made and no reply is ever sent.
\<close>

theorem silent_upstream_leaves_the_caller_without_reply:
  "analyze sample_config silent_upstream sample_request =
     (None, [moderation_call (Some (ascii ''sk-test'')) (ascii ''I hate everyone'')])
   \<and> analyze_short sample_config silent_upstream sample_request =
     (None, [moderation_call (Some (ascii ''sk-test'')) (ascii ''I hate everyone'')])"
proof -
  have "ascii ''I hate everyone'' \<noteq> []" by (simp add: ascii_def)
  then show ?thesis
    by (simp add: analyze_def analyze_short_def
      analyze_try_valid [OF sample_request_text sample_text_valid sample_key]
      analyze_try_short_valid [OF sample_request_text _ sample_key]
      silent_upstream_def)
qed

end
